theory Spec2Isabelle
  imports Main
begin

section \<open>The CausaDB client (src/src/causadb.ts)\<close>

text \<open>
  The client is a class with one mutable field, \<open>tokenSecret: string | null\<close>, and seven
  methods. Every method but \<open>addData\<close> is \<open>async\<close> and talks to the service through
  \<open>axios.get\<close>. The embedding makes three things explicit:
  \<^item> the client objects live in a store (handles keep a reference to their client, not a
    copy), and every method takes the store and returns it;
  \<^item> a method's result is a sum: \<open>Inl\<close> the value thrown (the rejection of the promise),
    \<open>Inr\<close> the value returned;
  \<^item> every method returns the list of network calls it made, in the order it made them.
  The service is a parameter: what \<open>axios.get\<close> answers to a URL and a token header.
\<close>

subsection \<open>Errors\<close>

text \<open>
  The source throws \<open>new Error(message)\<close> with four different messages. A value thrown by
  the transport (the rejection of \<open>axios.get\<close>: no response, or a status outside the range
  the transport accepts) is an \<open>AxiosError\<close>; reading a property of \<open>undefined\<close> is a
  \<open>TypeError\<close>.
\<close>

datatype error =
    Error string
  | AxiosError string
  | TypeError

subsection \<open>Responses and the service\<close>

text \<open>
  A listing body is \<open>{ models: [{ name }, ...] }\<close> or \<open>{ data: [{ name }, ...] }\<close>. The source
  types it \<open>any\<close>: a body without the array it reads is \<open>None\<close> here, and the read raises
  \<open>TypeError\<close>.
\<close>

datatype resource_spec = ResourceSpec (spec_name: string)

record body =
  body_models :: "resource_spec list option"
  body_data :: "resource_spec list option"

record response =
  status :: nat
  data :: body

datatype axios_result = Rejected error | Resolved response

text \<open>
  \<open>causadbUrl\<close> is the module constant \<open>getCausadbUrl()\<close> (from \<open>./utils\<close>); \<open>axios_get\<close> is
  what \<open>axios.get(url, { headers: { token } })\<close> settles to; \<open>model_create_call\<close> says
  whether the remote create call of the Model factory succeeds for a name and a token.
\<close>

record env =
  causadbUrl :: string
  axios_get :: "string \<Rightarrow> string option \<Rightarrow> axios_result"
  model_create_call :: "string \<Rightarrow> string option \<Rightarrow> bool"

datatype call =
    AxiosGet string "string option"
  | ModelCreateCall string "string option"

subsection \<open>The client and the store\<close>

record CausaDB =
  tokenSecret :: "string option"

type_synonym client_ref = nat

type_synonym heap = "client_ref \<Rightarrow> CausaDB"

type_synonym 'a outcome = "(error + 'a) \<times> heap \<times> call list"

text \<open>The constructor: \<open>this.tokenSecret = null\<close>.\<close>

definition CausaDB_new :: CausaDB where
  "CausaDB_new = \<lparr>tokenSecret = None\<rparr>"

subsection \<open>Handles\<close>

text \<open>
  Modelled from the spec: the class \<open>Data\<close> (\<open>./data\<close>) is not among the sources. The spec
  gives a Data handle as a name and a non-owning reference to the client, and its
  construction as purely local, with no network call: \<open>new Data(name, client)\<close> is the
  value \<open>Data name client\<close>.
\<close>

datatype Data = Data (data_name: string) (data_client: client_ref)

text \<open>
  Modelled from the spec: the class \<open>Model\<close> (\<open>./model\<close>) is not among the sources. The spec
  gives a Model handle as a name and a non-owning reference to the client, never mutated
  after construction.
\<close>

datatype Model = Model (model_name: string) (model_client: client_ref)

text \<open>
  Modelled from the spec: the factory \<open>Model.create(name, client)\<close> (\<open>./model\<close>) is not among
  the sources. By the spec it is asynchronous, validates nothing locally, performs one
  remote create call carrying the client's token, which it only reads, and returns a
  handle keyed by the name once the call succeeds. A call that does not succeed is a
  ServerRequestError of the spec's taxonomy, which in the source is the message
  \<open>CausaDB server request failed\<close>.
\<close>

definition Model_create :: "env \<Rightarrow> string \<Rightarrow> client_ref \<Rightarrow> heap \<Rightarrow> Model outcome" where
  "Model_create e modelName client h =
     (let token = tokenSecret (h client) in
      if model_create_call e modelName token
      then (Inr (Model modelName client), h, [ModelCreateCall modelName token])
      else (Inl (Error ''CausaDB server request failed''), h,
            [ModelCreateCall modelName token]))"

subsection \<open>Control: try/catch and Promise.all\<close>

text \<open>
  \<open>try { ... } catch (error) { throw new Error(m) }\<close>: whatever the body throws is replaced
  by the one error of the handler.
\<close>

definition catch_rethrow :: "error + 'a \<Rightarrow> error \<Rightarrow> error + 'a" where
  "catch_rethrow r e' = (case r of Inl _ \<Rightarrow> Inl e' | Inr v \<Rightarrow> Inr v)"

text \<open>
  \<open>Promise.all\<close> over promises that were all started by \<open>map\<close>: every one of them runs,
  whether or not another fails; the result is the list of their values in the order of
  the array, or a rejection when one of them rejects.
\<close>

primrec Promise_all :: "(heap \<Rightarrow> 'a outcome) list \<Rightarrow> heap \<Rightarrow> ('a list) outcome" where
  "Promise_all [] h = (Inr [], h, [])"
| "Promise_all (p # ps) h =
     (case p h of (r, h1, cs1) \<Rightarrow>
        (case Promise_all ps h1 of (rs, h2, cs2) \<Rightarrow>
           ((case r of
               Inl err \<Rightarrow> Inl err
             | Inr v \<Rightarrow> (case rs of Inl err \<Rightarrow> Inl err | Inr vs \<Rightarrow> Inr (v # vs))),
            h2, cs1 @ cs2)))"

subsection \<open>The methods\<close>

text \<open>
  \<open>setToken\<close>: the request is not inside a \<open>try\<close>, so a rejection of \<open>axios.get\<close> leaves the
  method as it is; the field is assigned in the branch \<open>response.status === 200\<close> only.
\<close>

definition setToken :: "env \<Rightarrow> client_ref \<Rightarrow> string \<Rightarrow> heap \<Rightarrow> bool outcome" where
  "setToken e this secret h =
     (let headers = Some secret;
          url = causadbUrl e @ ''/account''
      in case axios_get e url headers of
           Rejected err \<Rightarrow> (Inl err, h, [AxiosGet url headers])
         | Resolved response \<Rightarrow>
             if status response = 200
             then (Inr True, h(this := (h this)\<lparr>tokenSecret := Some secret\<rparr>),
                   [AxiosGet url headers])
             else (Inl (Error ''Invalid token''), h, [AxiosGet url headers]))"

text \<open>\<open>createModel\<close>: \<open>return await Model.create(modelName, this)\<close>.\<close>

definition createModel :: "env \<Rightarrow> client_ref \<Rightarrow> string \<Rightarrow> heap \<Rightarrow> Model outcome" where
  "createModel e this modelName h = Model_create e modelName this h"

text \<open>\<open>addData\<close>: \<open>return new Data(dataName, this)\<close>; the one method that is not \<open>async\<close>.\<close>

definition addData :: "client_ref \<Rightarrow> string \<Rightarrow> heap \<Rightarrow> Data outcome" where
  "addData this dataName h = (Inr (Data dataName this), h, [])"

text \<open>
  \<open>getModel\<close>: the lookup is awaited inside the \<open>try\<close>; the factory's promise is returned
  without \<open>await\<close>, so its rejection is not seen by the handler.
\<close>

definition getModel :: "env \<Rightarrow> client_ref \<Rightarrow> string \<Rightarrow> heap \<Rightarrow> Model outcome" where
  "getModel e this modelName h =
     (let headers = tokenSecret (h this);
          url = causadbUrl e @ ''/models/'' @ modelName
      in case axios_get e url headers of
           Rejected err \<Rightarrow>
             (catch_rethrow (Inl err) (Error ''CausaDB server request failed''), h,
              [AxiosGet url headers])
         | Resolved response \<Rightarrow>
             (case Model_create e modelName this h of
                (r, h', cs) \<Rightarrow> (r, h', AxiosGet url headers # cs)))"

text \<open>
  \<open>listModels\<close>: the listing and \<open>await Promise.all(...)\<close> are both inside the \<open>try\<close>.
\<close>

definition listModels :: "env \<Rightarrow> client_ref \<Rightarrow> heap \<Rightarrow> (Model list) outcome" where
  "listModels e this h =
     (let headers = tokenSecret (h this);
          url = causadbUrl e @ ''/models''
      in case axios_get e url headers of
           Rejected err \<Rightarrow>
             (catch_rethrow (Inl err) (Error ''CausaDB server request failed''), h,
              [AxiosGet url headers])
         | Resolved response \<Rightarrow>
             (case body_models (data response) of
                None \<Rightarrow>
                  (catch_rethrow (Inl TypeError) (Error ''CausaDB server request failed''), h,
                   [AxiosGet url headers])
              | Some specs \<Rightarrow>
                  (case Promise_all
                          (map (\<lambda>modelSpec. Model_create e (spec_name modelSpec) this) specs) h of
                     (r, h', cs) \<Rightarrow>
                       (catch_rethrow r (Error ''CausaDB server request failed''), h',
                        AxiosGet url headers # cs))))"

text \<open>
  \<open>getData\<close>: the membership test and the \<open>throw\<close> of its \<open>else\<close> branch are inside the
  \<open>try\<close>, with the listing.
\<close>

definition getData :: "env \<Rightarrow> client_ref \<Rightarrow> string \<Rightarrow> heap \<Rightarrow> Data outcome" where
  "getData e this dataName h =
     (let headers = tokenSecret (h this);
          url = causadbUrl e @ ''/data''
      in (catch_rethrow
            (case axios_get e url headers of
               Rejected err \<Rightarrow> Inl err
             | Resolved data_list \<Rightarrow>
                 (case body_data (data data_list) of
                    None \<Rightarrow> Inl TypeError
                  | Some specs \<Rightarrow>
                      (let data_names = map spec_name specs
                       in if dataName \<in> set data_names
                          then Inr (Data dataName this)
                          else Inl (Error (''Data '' @ dataName @ '' not found'')))))
            (Error ''CausaDB server request failed''),
          h, [AxiosGet url headers]))"

text \<open>\<open>listData\<close>: as \<open>listModels\<close>, with local handles and its own message.\<close>

definition listData :: "env \<Rightarrow> client_ref \<Rightarrow> heap \<Rightarrow> (Data list) outcome" where
  "listData e this h =
     (let headers = tokenSecret (h this);
          url = causadbUrl e @ ''/data''
      in (catch_rethrow
            (case axios_get e url headers of
               Rejected err \<Rightarrow> Inl err
             | Resolved response \<Rightarrow>
                 (case body_data (data response) of
                    None \<Rightarrow> Inl TypeError
                  | Some specs \<Rightarrow> Inr (map (\<lambda>dataSpec. Data (spec_name dataSpec) this) specs)))
            (Error ''CausaDB client failed to connect to server''),
          h, [AxiosGet url headers]))"

subsection \<open>Example services\<close>

text \<open>A store of freshly constructed clients.\<close>

definition heap0 :: heap where
  "heap0 = (\<lambda>_. CausaDB_new)"

text \<open>
  A service that accepts every request with status 200 and lists the models \<open>a\<close>, \<open>b\<close> and
  the data resource \<open>y\<close>.
\<close>

definition env_ok :: env where
  "env_ok = \<lparr>causadbUrl = ''https://causadb.test'',
     axios_get = (\<lambda>url token. Resolved \<lparr>status = 200,
        data = \<lparr>body_models = Some [ResourceSpec ''a'', ResourceSpec ''b''],
                body_data = Some [ResourceSpec ''y'']\<rparr>\<rparr>),
     model_create_call = (\<lambda>modelName token. True)\<rparr>"

text \<open>A service that cannot be reached: every request is rejected by the transport.\<close>

definition env_down :: env where
  "env_down = \<lparr>causadbUrl = ''https://causadb.test'',
     axios_get = (\<lambda>url token. Rejected (AxiosError ''Network Error'')),
     model_create_call = (\<lambda>modelName token. False)\<rparr>"

text \<open>
  A service that refuses every request with status 401, which the transport (with its
  default range of accepted statuses) turns into a rejection.
\<close>

definition env_unauthorized :: env where
  "env_unauthorized = \<lparr>causadbUrl = ''https://causadb.test'',
     axios_get = (\<lambda>url token. Rejected (AxiosError ''Request failed with status code 401'')),
     model_create_call = (\<lambda>modelName token. False)\<rparr>"

text \<open>A service that answers every request with status 204 and an empty body.\<close>

definition env_204 :: env where
  "env_204 = \<lparr>causadbUrl = ''https://causadb.test'',
     axios_get = (\<lambda>url token. Resolved \<lparr>status = 204,
        data = \<lparr>body_models = None, body_data = None\<rparr>\<rparr>),
     model_create_call = (\<lambda>modelName token. False)\<rparr>"

section \<open>Properties\<close>

subsection \<open>Authentication\<close>

text \<open>
  C3. If the account-verification request of \<open>setToken(s)\<close> returns HTTP 200, then
  \<open>setToken(s)\<close> stores \<open>s\<close> as the client's token and returns true; the request is the one
  call it makes, and no other client of the store is touched.
\<close>

theorem setToken_accepted:
  assumes "axios_get e (causadbUrl e @ ''/account'') (Some s) = Resolved r"
    and "status r = 200"
  shows "setToken e this s h =
           (Inr True, h(this := (h this)\<lparr>tokenSecret := Some s\<rparr>),
            [AxiosGet (causadbUrl e @ ''/account'') (Some s)])
         \<and> tokenSecret (fst (snd (setToken e this s h)) this) = Some s"
  using assms by (simp add: setToken_def Let_def)

theorem setToken_accepted_witness:
  "setToken env_ok 0 ''secret'' heap0 =
     (Inr True, heap0(0 := \<lparr>tokenSecret = Some ''secret''\<rparr>),
      [AxiosGet ''https://causadb.test/account'' (Some ''secret'')])
   \<and> tokenSecret (fst (snd (setToken env_ok 0 ''secret'' heap0)) 0) = Some ''secret''"
  using setToken_accepted [of env_ok "''secret''"
      "\<lparr>status = 200,
        data = \<lparr>body_models = Some [ResourceSpec ''a'', ResourceSpec ''b''],
                body_data = Some [ResourceSpec ''y'']\<rparr>\<rparr>" 0 heap0]
  by (simp add: env_ok_def heap0_def CausaDB_new_def)

text \<open>
  A \<open>setToken(s)\<close> whose account request is not answered with status 200 fails and returns
  the store it was given: the token is assigned on success only.
\<close>

lemma setToken_failure_keeps_token:
  assumes "\<not> (\<exists>r. axios_get e (causadbUrl e @ ''/account'') (Some s) = Resolved r
                  \<and> status r = 200)"
  shows "isl (fst (setToken e this s h)) \<and> fst (snd (setToken e this s h)) = h"
  using assms by (simp add: setToken_def Let_def split: axios_result.splits)

text \<open>
  C2, on the code. A service refuses the token with status 401, which makes \<open>axios.get\<close>
  reject. The request is awaited outside any handler, before the test of the status:
  \<open>setToken\<close> fails with the transport's error, and the error \<open>Invalid token\<close> of its own
  \<open>else\<close> branch is not raised. The token stays \<open>null\<close>, as the claim says. The \<open>else\<close>
  branch is reached by a response that resolves with another status, such as 204.
\<close>

theorem setToken_unauthorized_not_invalid_token:
  "setToken env_unauthorized 0 ''secret'' heap0 =
     (Inl (AxiosError ''Request failed with status code 401''), heap0,
      [AxiosGet ''https://causadb.test/account'' (Some ''secret'')])
   \<and> fst (setToken env_unauthorized 0 ''secret'' heap0) \<noteq> Inl (Error ''Invalid token'')
   \<and> tokenSecret (fst (snd (setToken env_unauthorized 0 ''secret'' heap0)) 0) = None
   \<and> fst (setToken env_204 0 ''secret'' heap0) = Inl (Error ''Invalid token'')"
  by (simp add: setToken_def Let_def env_unauthorized_def env_204_def heap0_def CausaDB_new_def)

text \<open>
  C9. When the service answers the account request with status 200 for \<open>s1\<close> and for \<open>s2\<close>,
  \<open>setToken(s1)\<close> returns true, and \<open>setToken(s2)\<close> called after it, on the store it left,
  returns true as well and overwrites the stored token: the re-authentication is neither
  rejected nor ignored, and afterwards the token is \<open>s2\<close>, not \<open>s1\<close> when the two differ.
\<close>

theorem setToken_overwrites:
  assumes "axios_get e (causadbUrl e @ ''/account'') (Some s1) = Resolved r1"
    and "status r1 = 200"
    and "axios_get e (causadbUrl e @ ''/account'') (Some s2) = Resolved r2"
    and "status r2 = 200"
  shows "fst (setToken e this s1 h) = Inr True
         \<and> tokenSecret (fst (snd (setToken e this s1 h)) this) = Some s1
         \<and> fst (setToken e this s2 (fst (snd (setToken e this s1 h)))) = Inr True
         \<and> fst (snd (setToken e this s2 (fst (snd (setToken e this s1 h))))) =
             h(this := (h this)\<lparr>tokenSecret := Some s2\<rparr>)
         \<and> tokenSecret (fst (snd (setToken e this s2 (fst (snd (setToken e this s1 h))))) this) =
             Some s2
         \<and> (s1 \<noteq> s2 \<longrightarrow>
             tokenSecret (fst (snd (setToken e this s2 (fst (snd (setToken e this s1 h))))) this) \<noteq>
               Some s1)"
proof -
  have first: "setToken e this s1 h =
      (Inr True, h(this := (h this)\<lparr>tokenSecret := Some s1\<rparr>),
       [AxiosGet (causadbUrl e @ ''/account'') (Some s1)])"
    using assms(1,2) by (simp add: setToken_def Let_def)
  have second: "setToken e this s2 h' =
      (Inr True, h'(this := (h' this)\<lparr>tokenSecret := Some s2\<rparr>),
       [AxiosGet (causadbUrl e @ ''/account'') (Some s2)])" for h'
    using assms(3,4) by (simp add: setToken_def Let_def)
  show ?thesis
    by (simp add: first second)
qed

theorem setToken_overwrites_witness:
  "fst (setToken env_ok 0 ''old'' heap0) = Inr True
   \<and> tokenSecret (fst (snd (setToken env_ok 0 ''old'' heap0)) 0) = Some ''old''
   \<and> fst (setToken env_ok 0 ''new'' (fst (snd (setToken env_ok 0 ''old'' heap0)))) = Inr True
   \<and> tokenSecret
       (fst (snd (setToken env_ok 0 ''new'' (fst (snd (setToken env_ok 0 ''old'' heap0))))) 0) =
       Some ''new''
   \<and> tokenSecret
       (fst (snd (setToken env_ok 0 ''new'' (fst (snd (setToken env_ok 0 ''old'' heap0))))) 0) \<noteq>
       Some ''old''"
proof -
  have answer: "axios_get env_ok (causadbUrl env_ok @ ''/account'') (Some s) =
      Resolved \<lparr>status = 200,
        data = \<lparr>body_models = Some [ResourceSpec ''a'', ResourceSpec ''b''],
                body_data = Some [ResourceSpec ''y'']\<rparr>\<rparr>" for s
    by (simp add: env_ok_def)
  have ok: "status \<lparr>status = 200,
        data = \<lparr>body_models = Some [ResourceSpec ''a'', ResourceSpec ''b''],
                body_data = Some [ResourceSpec ''y'']\<rparr>\<rparr> = 200"
    by simp
  have differ: "''old'' \<noteq> ''new''"
    by simp
  from setToken_overwrites [where e = env_ok and ?s1.0 = "''old''" and ?s2.0 = "''new''"
      and this = 0 and h = heap0, OF answer ok answer ok] differ
  show ?thesis by blast
qed

subsection \<open>Models\<close>

lemma Promise_all_Model_create:
  "Promise_all (map (\<lambda>modelSpec. Model_create e (spec_name modelSpec) this) specs) h =
     ((if list_all (\<lambda>modelSpec. model_create_call e (spec_name modelSpec) (tokenSecret (h this)))
            specs
       then Inr (map (\<lambda>modelSpec. Model (spec_name modelSpec) this) specs)
       else Inl (Error ''CausaDB server request failed'')),
      h,
      map (\<lambda>modelSpec. ModelCreateCall (spec_name modelSpec) (tokenSecret (h this))) specs)"
  by (induction specs) (simp_all add: Model_create_def Let_def)

text \<open>
  C4. If the lookup request of \<open>getModel(m)\<close> fails, whatever the transport's reason,
  \<open>getModel(m)\<close> fails with the error \<open>CausaDB server request failed\<close>. No handle is
  returned, and none was under construction: the lookup is the only call made, the
  factory is not reached.
\<close>

theorem getModel_request_failed:
  assumes "axios_get e (causadbUrl e @ ''/models/'' @ m) (tokenSecret (h this)) = Rejected err"
  shows "getModel e this m h =
           (Inl (Error ''CausaDB server request failed''), h,
            [AxiosGet (causadbUrl e @ ''/models/'' @ m) (tokenSecret (h this))])"
  using assms by (simp add: getModel_def Let_def catch_rethrow_def)

theorem getModel_request_failed_witness:
  "getModel env_down 0 ''m1'' heap0 =
     (Inl (Error ''CausaDB server request failed''), heap0,
      [AxiosGet ''https://causadb.test/models/m1'' None])"
  using getModel_request_failed [of env_down "''m1''" heap0 0 "AxiosError ''Network Error''"]
  by (simp add: env_down_def heap0_def CausaDB_new_def)

text \<open>
  C5. When the model listing resolves with the specs \<open>specs\<close>, whatever \<open>listModels()\<close>
  returns is one handle per spec, named as the spec and referring to this client, in the
  order of the listing; and it does return that list when each call of the factory
  succeeds.
\<close>

theorem listModels_handles:
  assumes "axios_get e (causadbUrl e @ ''/models'') (tokenSecret (h this)) = Resolved r"
    and "body_models (data r) = Some specs"
  shows "(fst (listModels e this h) = Inr ms \<longrightarrow>
            ms = map (\<lambda>modelSpec. Model (spec_name modelSpec) this) specs
            \<and> length ms = length specs
            \<and> map model_name ms = map spec_name specs)
         \<and> (list_all (\<lambda>modelSpec. model_create_call e (spec_name modelSpec) (tokenSecret (h this)))
              specs \<longrightarrow>
            fst (listModels e this h) =
              Inr (map (\<lambda>modelSpec. Model (spec_name modelSpec) this) specs))"
proof -
  have run: "fst (listModels e this h) =
      catch_rethrow
        (if list_all (\<lambda>modelSpec. model_create_call e (spec_name modelSpec) (tokenSecret (h this)))
              specs
         then Inr (map (\<lambda>modelSpec. Model (spec_name modelSpec) this) specs)
         else Inl (Error ''CausaDB server request failed''))
        (Error ''CausaDB server request failed'')"
    using assms by (simp add: listModels_def Let_def Promise_all_Model_create)
  have names: "map model_name (map (\<lambda>modelSpec. Model (spec_name modelSpec) this) specs) =
      map spec_name specs"
    by (simp add: comp_def)
  show ?thesis
    using names by (auto simp: run catch_rethrow_def split: if_splits)
qed

theorem listModels_handles_witness:
  "fst (listModels env_ok 0 heap0) = Inr [Model ''a'' 0, Model ''b'' 0]
   \<and> length [Model ''a'' 0, Model ''b'' 0] = length [ResourceSpec ''a'', ResourceSpec ''b'']
   \<and> map model_name [Model ''a'' 0, Model ''b'' 0] = [''a'', ''b'']"
  using listModels_handles [where e = env_ok and h = heap0 and this = 0
      and r = "\<lparr>status = 200,
        data = \<lparr>body_models = Some [ResourceSpec ''a'', ResourceSpec ''b''],
                body_data = Some [ResourceSpec ''y'']\<rparr>\<rparr>"
      and specs = "[ResourceSpec ''a'', ResourceSpec ''b'']"
      and ms = "[Model ''a'' 0, Model ''b'' 0]"]
  by (simp add: env_ok_def)

subsection \<open>Data\<close>

text \<open>
  C1, on the code. The service lists the data resource \<open>y\<close> only, and the client asks for
  \<open>x\<close>. The error \<open>Data x not found\<close> is thrown inside the \<open>try\<close> whose handler replaces it:
  what \<open>getData\<close> fails with is \<open>CausaDB server request failed\<close>, the same error as when the
  listing request itself fails.
\<close>

theorem getData_absent_name_folded:
  "getData env_ok 0 ''x'' heap0 =
     (Inl (Error ''CausaDB server request failed''), heap0,
      [AxiosGet ''https://causadb.test/data'' None])
   \<and> fst (getData env_ok 0 ''x'' heap0) \<noteq> Inl (Error ''Data x not found'')
   \<and> fst (getData env_ok 0 ''x'' heap0) = fst (getData env_down 0 ''x'' heap0)"
  by (simp add: getData_def Let_def catch_rethrow_def env_ok_def env_down_def heap0_def
      CausaDB_new_def)

text \<open>
  C6. If the listing request of \<open>getData(d)\<close> succeeds and the listing contains \<open>d\<close>, then
  \<open>getData(d)\<close> returns a Data handle named \<open>d\<close> (referring to this client), and the listing
  request is the only network call it makes.
\<close>

theorem getData_found:
  assumes "axios_get e (causadbUrl e @ ''/data'') (tokenSecret (h this)) = Resolved r"
    and "body_data (data r) = Some specs"
    and "d \<in> set (map spec_name specs)"
  shows "getData e this d h =
           (Inr (Data d this), h, [AxiosGet (causadbUrl e @ ''/data'') (tokenSecret (h this))])
         \<and> data_name (Data d this) = d"
  using assms by (simp add: getData_def Let_def catch_rethrow_def)

theorem getData_found_witness:
  "getData env_ok 0 ''y'' heap0 =
     (Inr (Data ''y'' 0), heap0, [AxiosGet ''https://causadb.test/data'' None])
   \<and> data_name (Data ''y'' 0) = ''y''"
  using getData_found [of env_ok heap0 0
      "\<lparr>status = 200,
        data = \<lparr>body_models = Some [ResourceSpec ''a'', ResourceSpec ''b''],
                body_data = Some [ResourceSpec ''y'']\<rparr>\<rparr>"
      "[ResourceSpec ''y'']" "''y''"]
  by (simp add: env_ok_def heap0_def CausaDB_new_def)

text \<open>
  C7. \<open>addData(d)\<close> is purely local: it makes no network call, it always succeeds, and the
  Data handle it returns has the name \<open>d\<close> and refers to the client it was called on.
\<close>

theorem addData_local:
  "addData this d h = (Inr (Data d this), h, [])
   \<and> data_name (Data d this) = d
   \<and> data_client (Data d this) = this"
  by (simp add: addData_def)

text \<open>
  C10. When the data-listing request fails, \<open>listData()\<close> fails with the message
  \<open>CausaDB client failed to connect to server\<close>. It is not the message of the other
  methods: on the same failure \<open>getData\<close> fails with \<open>CausaDB server request failed\<close>, as
  \<open>listModels\<close> and \<open>getModel\<close> do when their requests fail.
\<close>

theorem listData_failure_message:
  assumes "axios_get e (causadbUrl e @ ''/data'') (tokenSecret (h this)) = Rejected err"
  shows "fst (listData e this h) = Inl (Error ''CausaDB client failed to connect to server'')
         \<and> fst (getData e this d h) = Inl (Error ''CausaDB server request failed'')
         \<and> fst (listData e this h) \<noteq> Inl (Error ''CausaDB server request failed'')
         \<and> (axios_get e (causadbUrl e @ ''/models'') (tokenSecret (h this)) = Rejected err1 \<longrightarrow>
              fst (listModels e this h) = Inl (Error ''CausaDB server request failed''))
         \<and> (axios_get e (causadbUrl e @ ''/models/'' @ m) (tokenSecret (h this)) = Rejected err2 \<longrightarrow>
              fst (getModel e this m h) = Inl (Error ''CausaDB server request failed''))"
  using assms
  by (simp add: listData_def getData_def listModels_def getModel_def Let_def catch_rethrow_def)

theorem listData_failure_message_witness:
  "fst (listData env_down 0 heap0) = Inl (Error ''CausaDB client failed to connect to server'')
   \<and> fst (getData env_down 0 ''x'' heap0) = Inl (Error ''CausaDB server request failed'')
   \<and> fst (listData env_down 0 heap0) \<noteq> Inl (Error ''CausaDB server request failed'')
   \<and> fst (listModels env_down 0 heap0) = Inl (Error ''CausaDB server request failed'')
   \<and> fst (getModel env_down 0 ''m1'' heap0) = Inl (Error ''CausaDB server request failed'')"
  using listData_failure_message [of env_down heap0 0 "AxiosError ''Network Error''"
      "''x''" "AxiosError ''Network Error''" "''m1''" "AxiosError ''Network Error''"]
  by (simp add: env_down_def)

subsection \<open>The token field\<close>

text \<open>
  C8. The token field is written by a successful \<open>setToken\<close> only: \<open>createModel\<close>,
  \<open>addData\<close>, \<open>getModel\<close>, \<open>listModels\<close>, \<open>getData\<close> and \<open>listData\<close> return the store they were
  given, whether they succeed or fail, and so does a \<open>setToken\<close> that does not return true.
\<close>

theorem token_written_by_setToken_only:
  "fst (snd (createModel e this m h)) = h
   \<and> fst (snd (addData this d h)) = h
   \<and> fst (snd (getModel e this m h)) = h
   \<and> fst (snd (listModels e this h)) = h
   \<and> fst (snd (getData e this d h)) = h
   \<and> fst (snd (listData e this h)) = h
   \<and> fst (snd (setToken e this s h)) =
       (if fst (setToken e this s h) = Inr True
        then h(this := (h this)\<lparr>tokenSecret := Some s\<rparr>) else h)"
proof -
  have "fst (snd (createModel e this m h)) = h"
    by (simp add: createModel_def Model_create_def Let_def)
  moreover have "fst (snd (addData this d h)) = h"
    by (simp add: addData_def)
  moreover have "fst (snd (getModel e this m h)) = h"
    by (simp add: getModel_def Model_create_def Let_def split: axios_result.splits)
  moreover have "fst (snd (listModels e this h)) = h"
    by (simp add: listModels_def Let_def Promise_all_Model_create
        split: axios_result.splits option.splits)
  moreover have "fst (snd (getData e this d h)) = h"
    by (simp add: getData_def Let_def)
  moreover have "fst (snd (listData e this h)) = h"
    by (simp add: listData_def Let_def)
  moreover have "fst (snd (setToken e this s h)) =
       (if fst (setToken e this s h) = Inr True
        then h(this := (h this)\<lparr>tokenSecret := Some s\<rparr>) else h)"
    by (simp add: setToken_def Let_def split: axios_result.splits)
  ultimately show ?thesis by simp
qed

end
